theory Spec2Isabelle
  imports Complex_Main "HOL-Library.Word"
begin

section \<open>Numbers\<close>

text \<open>
  The application is TypeScript; every \<^verbatim>\<open>number\<close> is an IEEE double. The embedding
  reads finite numbers as \<^typ>\<open>real\<close> (rounding error is not modelled) and writes out, as
  separate cases, the places where the source can produce \<^verbatim>\<open>NaN\<close> or \<^verbatim>\<open>Infinity\<close>:
  the mean of an empty frequency array, and the reciprocal of a zero clock delta.
  Counters (\<^verbatim>\<open>frameCountRef\<close>) are \<^typ>\<open>nat\<close>: a double counts exactly up to
  \<open>2 ^ 53\<close>, far beyond any run of the program.
\<close>

section \<open>Audio envelope estimator (hooks/useAudioLipSync.ts)\<close>

record AudioLipSyncData =
  volume :: real
  visemeA :: real
  visemeI :: real
  visemeU :: real
  visemeE :: real
  visemeO :: real

text \<open>
  What one call of \<^verbatim>\<open>analyzeAudio\<close> hands to \<^verbatim>\<open>onUpdate\<close>.
  \<^item> \<open>Skipped\<close>: the early \<^verbatim>\<open>return\<close> (no analyser, no data array, or not enabled);
  \<^item> \<open>EmittedNaN\<close>: the data array is empty, so \<^verbatim>\<open>sum / length\<close> is \<^verbatim>\<open>0 / 0 = NaN\<close>;
    \<^verbatim>\<open>Math.pow(NaN, 0.7)\<close> is \<^verbatim>\<open>NaN\<close>, every comparison with it is false, and the
    callback receives \<^verbatim>\<open>volume: NaN\<close> with all five visemes \<open>0\<close>;
  \<^item> \<open>Emitted d\<close>: the callback receives \<open>d\<close>.
\<close>

datatype analyze_result = Skipped | EmittedNaN | Emitted AudioLipSyncData

text \<open>The loop \<^verbatim>\<open>let sum = 0; for (const value of data) sum += value\<close> over a \<^verbatim>\<open>Uint8Array\<close>.\<close>

definition sumBytes :: "8 word list \<Rightarrow> nat" where
  "sumBytes dataArray = foldl (\<lambda>sum v. sum + unat v) 0 dataArray"

text \<open>
  Lines 47 to 58: the object literal \<^verbatim>\<open>audioLipSyncData\<close>, as a function of
  \<^verbatim>\<open>normalizedVolume\<close>. \<^verbatim>\<open>Math.pow(x, 0.7)\<close> is \<open>x powr 0.7\<close>
  (both give \<open>0\<close> at \<open>0\<close>).
\<close>

definition audioLipSyncData :: "real \<Rightarrow> AudioLipSyncData" where
  "audioLipSyncData normalizedVolume =
     (let volume = normalizedVolume;
          volumeSmoothed = volume powr 0.7
      in \<lparr> volume = volumeSmoothed,
           visemeA = (if volumeSmoothed > 0.1 then volumeSmoothed * 0.8 else 0),
           visemeI = (if volumeSmoothed > 0.05 then volumeSmoothed * 0.6 else 0),
           visemeU = (if volumeSmoothed > 0.03 then volumeSmoothed * 0.4 else 0),
           visemeE = (if volumeSmoothed > 0.07 then volumeSmoothed * 0.5 else 0),
           visemeO = (if volumeSmoothed > 0.04 then volumeSmoothed * 0.7 else 0) \<rparr>)"

text \<open>
  \<^verbatim>\<open>analyzeAudio\<close>. The first argument is the content of the data array after
  \<^verbatim>\<open>getByteFrequencyData\<close>, or \<open>None\<close> when \<^verbatim>\<open>analyserRef.current\<close> or
  \<^verbatim>\<open>dataArrayRef.current\<close> is null.
\<close>

definition analyzeAudio :: "8 word list option \<Rightarrow> bool \<Rightarrow> analyze_result" where
  "analyzeAudio analyser enabled =
     (case analyser of
        None \<Rightarrow> Skipped
      | Some dataArray \<Rightarrow>
          if \<not> enabled then Skipped
          else if dataArray = [] then EmittedNaN
          else
            let averageVolume = real (sumBytes dataArray) / real (length dataArray);
                normalizedVolume = averageVolume / 255
            in Emitted (audioLipSyncData normalizedVolume))"

section \<open>Face tracking producer (hooks/useFaceTracking.ts)\<close>

datatype vec3 = Vec3 (vx: real) (vy: real) (vz: real)

text \<open>
  \<^verbatim>\<open>Record<string, number>\<close> is kept as the list of its entries in insertion order,
  the order in which \<^verbatim>\<open>Object.entries\<close> visits them.
\<close>

record FaceTrackingData =
  isActive :: bool
  blendShapes :: "(string \<times> real) list"
  rotation :: vec3
  position :: vec3

text \<open>
  The fields of Kalidokit's result that the callback reads. A field is \<open>None\<close> when it is
  \<^verbatim>\<open>undefined\<close> or \<^verbatim>\<open>NaN\<close>; \<^verbatim>\<open>x || 0\<close> turns both into \<open>0\<close>.
\<close>

record TFace =
  eye_l :: "real option"
  eye_r :: "real option"
  pupil_x :: "real option"
  pupil_y :: "real option"
  shape_A :: "real option"
  shape_I :: "real option"
  shape_O :: "real option"
  shape_U :: "real option"
  brow :: "real option"
  degrees_x :: "real option"
  degrees_y :: "real option"
  degrees_z :: "real option"
  position_x :: "real option"
  position_y :: "real option"
  position_z :: "real option"

definition orZero :: "real option \<Rightarrow> real" where
  "orZero v = (case v of None \<Rightarrow> 0 | Some r \<Rightarrow> r)"

text \<open>The object literal \<^verbatim>\<open>trackingData\<close> of lines 99 to 138.\<close>

definition trackingData :: "TFace \<Rightarrow> FaceTrackingData" where
  "trackingData face =
     \<lparr> isActive = True,
       blendShapes =
         [ (''eyeBlinkLeft'', orZero (eye_l face)),
           (''eyeBlinkRight'', orZero (eye_r face)),
           (''eyeLookUpLeft'', max 0 (orZero (pupil_y face))),
           (''eyeLookUpRight'', max 0 (orZero (pupil_y face))),
           (''eyeLookDownLeft'', max 0 (- orZero (pupil_y face))),
           (''eyeLookDownRight'', max 0 (- orZero (pupil_y face))),
           (''eyeLookInLeft'', max 0 (orZero (pupil_x face))),
           (''eyeLookInRight'', max 0 (- orZero (pupil_x face))),
           (''eyeLookOutLeft'', max 0 (- orZero (pupil_x face))),
           (''eyeLookOutRight'', max 0 (orZero (pupil_x face))),
           (''mouthOpen'', orZero (shape_A face)),
           (''mouthSmileLeft'', orZero (shape_I face)),
           (''mouthSmileRight'', orZero (shape_I face)),
           (''mouthFunnel'', orZero (shape_O face)),
           (''mouthPucker'', orZero (shape_U face)),
           (''browDownLeft'', max 0 (- orZero (brow face))),
           (''browDownRight'', max 0 (- orZero (brow face))),
           (''browUpCenter'', max 0 (orZero (brow face))),
           (''browUpLeft'', max 0 (orZero (brow face))),
           (''browUpRight'', max 0 (orZero (brow face))) ],
       rotation = Vec3 (orZero (degrees_x face)) (orZero (degrees_y face)) (orZero (degrees_z face)),
       position = Vec3 (orZero (position_x face)) (orZero (position_y face)) (orZero (position_z face)) \<rparr>"

text \<open>
  The literal passed to \<^verbatim>\<open>onUpdate\<close> in the \<^verbatim>\<open>catch\<close> block (lines 146 to 151) and,
  written out a second time, in the no-face branch (lines 156 to 161).
\<close>

definition inactiveData :: FaceTrackingData where
  "inactiveData =
     \<lparr> isActive = False, blendShapes = [], rotation = Vec3 0 0 0, position = Vec3 0 0 0 \<rparr>"

text \<open>
  \<^verbatim>\<open>Face.solve\<close> is a library call. What it does on a landmark set is an input of the
  model: it throws (or building \<^verbatim>\<open>trackingData\<close> from its result throws, inside the same
  \<^verbatim>\<open>try\<close>), it returns a falsy value, or it returns a face.
\<close>

datatype solved = Throws | Falsy | Face TFace

datatype 'l tracking_effect =
    FaceSolve 'l
  | ConsoleWarn
  | OnUpdate FaceTrackingData
  | SetIsTracking bool

datatype 'l frame_result = Dropped | Forwarded "'l tracking_effect list"

text \<open>
  The callback registered with \<^verbatim>\<open>faceMesh.onResults\<close>. It takes
  \<^verbatim>\<open>results.multiFaceLandmarks\<close> (\<open>None\<close> when undefined) and the value of
  \<^verbatim>\<open>frameCountRef.current\<close>, and returns the new counter with what the call did:
  the early \<^verbatim>\<open>return\<close> of the decimation, or the effects in the order they happen.
\<close>

definition onResults ::
  "('l \<Rightarrow> solved) \<Rightarrow> 'l list option \<Rightarrow> nat \<Rightarrow> nat \<times> 'l frame_result" where
  "onResults solve multiFaceLandmarks frameCount =
     (let frameCount' = frameCount + 1 in
      if frameCount' mod 3 \<noteq> 0 then (frameCount', Dropped)
      else
        (frameCount',
         Forwarded
           (case multiFaceLandmarks of
              Some (landmarks # _) \<Rightarrow>
                (case solve landmarks of
                   Face face \<Rightarrow>
                     [FaceSolve landmarks, OnUpdate (trackingData face), SetIsTracking True]
                 | Falsy \<Rightarrow> [FaceSolve landmarks]
                 | Throws \<Rightarrow>
                     [FaceSolve landmarks, ConsoleWarn, OnUpdate inactiveData, SetIsTracking False])
            | _ \<Rightarrow> [OnUpdate inactiveData, SetIsTracking False])))"

text \<open>
  The callback run on a sequence of results, one per camera frame (\<^verbatim>\<open>onFrame\<close> sends
  every frame to \<^verbatim>\<open>faceMesh\<close>), with the counter threaded through.
\<close>

fun onResultsSeq ::
  "('l \<Rightarrow> solved) \<Rightarrow> 'l list option list \<Rightarrow> nat \<Rightarrow> 'l frame_result list" where
  "onResultsSeq solve [] frameCount = []"
| "onResultsSeq solve (r # rs) frameCount =
     snd (onResults solve r frameCount) # onResultsSeq solve rs (fst (onResults solve r frameCount))"

definition isForwarded :: "'l frame_result \<Rightarrow> bool" where
  "isForwarded r = (case r of Dropped \<Rightarrow> False | Forwarded _ \<Rightarrow> True)"

text \<open>The positions, counted from 1, of the frames that were not dropped.\<close>

definition forwardedPositions :: "'l frame_result list \<Rightarrow> nat list" where
  "forwardedPositions outs = filter (\<lambda>k. isForwarded (outs ! (k - 1))) [1..<Suc (length outs)]"

text \<open>The samples handed to \<^verbatim>\<open>onUpdate\<close>, and the landmark sets handed to the solver.\<close>

fun emitted :: "'l frame_result \<Rightarrow> FaceTrackingData list" where
  "emitted Dropped = []"
| "emitted (Forwarded fx) = concat (map (\<lambda>e. case e of OnUpdate d \<Rightarrow> [d] | _ \<Rightarrow> []) fx)"

fun solverCalls :: "'l frame_result \<Rightarrow> 'l list" where
  "solverCalls Dropped = []"
| "solverCalls (Forwarded fx) = concat (map (\<lambda>e. case e of FaceSolve l \<Rightarrow> [l] | _ \<Rightarrow> []) fx)"

section \<open>Avatar canvas and render loop (components/AvatarCanvas.tsx)\<close>

subsection \<open>The rig\<close>

text \<open>
  The VRM object belongs to the three-vrm library. Of the rig only what the component
  touches is kept: the expression manager (absent, or the expression channels the rig has
  with their weights) and the humanoid (absent, or its head bone, absent or with a
  rotation). \<^verbatim>\<open>setValue\<close> on a name the rig does not have does nothing, or throws when
  \<open>throwsOnUnknown\<close> is set: the source wraps the call in \<^verbatim>\<open>try/catch\<close> for that case.
  The rig keeps its channels under their names, which are strings; an argument that is not a
  string names no channel of the rig, so \<^verbatim>\<open>setValue\<close> treats it as a name the rig does not
  have (the rig interface of the specification: a no-op, not an error, for unknown names).
\<close>

record ExpressionManager =
  weights :: "string \<rightharpoonup> real"
  throwsOnUnknown :: bool

record Humanoid =
  head :: "vec3 option"

record VRM =
  expressionManager :: "ExpressionManager option"
  humanoid :: "Humanoid option"

text \<open>\<open>None\<close> is a thrown exception.\<close>

definition setValue :: "ExpressionManager \<Rightarrow> string \<Rightarrow> real \<Rightarrow> ExpressionManager option" where
  "setValue em name w =
     (if name \<in> dom (weights em) then Some (em\<lparr>weights := (weights em)(name \<mapsto> w)\<rparr>)
      else if throwsOnUnknown em then None
      else Some em)"

text \<open>\<^verbatim>\<open>setValue\<close> called with a value that is not a string.\<close>

definition setValueNonString :: "ExpressionManager \<Rightarrow> ExpressionManager option" where
  "setValueNonString em = (if throwsOnUnknown em then None else Some em)"

datatype fps = Infinity | Fps int

datatype effect =
    RequestAnimationFrame
  | StatsBegin
  | FPSUpdate fps
  | SetValue string real
  | SetValueInherited string real
  | HeadRotation vec3
  | VrmUpdate real
  | Render
  | StatsEnd
  | ConsoleLog AudioLipSyncData

subsection \<open>Channel mapping\<close>

definition mapping :: "(string \<times> string) list" where
  "mapping =
     [ (''eyeBlinkLeft'', ''blinkLeft''),
       (''eyeBlinkRight'', ''blinkRight''),
       (''eyeLookUpLeft'', ''lookUp''),
       (''eyeLookUpRight'', ''lookUp''),
       (''eyeLookDownLeft'', ''lookDown''),
       (''eyeLookDownRight'', ''lookDown''),
       (''eyeLookInLeft'', ''lookLeft''),
       (''eyeLookInRight'', ''lookRight''),
       (''eyeLookOutLeft'', ''lookRight''),
       (''eyeLookOutRight'', ''lookLeft''),
       (''mouthOpen'', ''aa''),
       (''mouthSmileLeft'', ''joy''),
       (''mouthSmileRight'', ''joy''),
       (''mouthFunnel'', ''oh''),
       (''mouthPucker'', ''ou''),
       (''browDownLeft'', ''angry''),
       (''browDownRight'', ''angry''),
       (''browUpCenter'', ''surprised''),
       (''browUpLeft'', ''surprised''),
       (''browUpRight'', ''surprised'') ]"

text \<open>
  \<^verbatim>\<open>mapping\<close> is an object literal, so indexing it also finds the properties it inherits
  from \<^verbatim>\<open>Object.prototype\<close>: the standard ones are listed here. Each of them is a function
  or, for \<^verbatim>\<open>__proto__\<close>, the prototype object itself: a truthy value that is not a string.
\<close>

definition objectPrototypeNames :: "string list" where
  "objectPrototypeNames =
     [ ''constructor'', ''__defineGetter__'', ''__defineSetter__'', ''hasOwnProperty'',
       ''__lookupGetter__'', ''__lookupSetter__'', ''isPrototypeOf'', ''propertyIsEnumerable'',
       ''toString'', ''valueOf'', ''__proto__'', ''toLocaleString'' ]"

text \<open>
  What \<^verbatim>\<open>mapToVRMBlendShape\<close> returns: \<^verbatim>\<open>null\<close>, the target channel of a table entry, or
  the member of \<^verbatim>\<open>Object.prototype\<close> that the name inherits (the declared return type
  \<^verbatim>\<open>string | null\<close> does not hold at run time).
\<close>

datatype lookup = Null | Target string | Inherited string

text \<open>
  \<^verbatim>\<open>mapping[shapeName] || null\<close>: an own key gives its value, and \<^verbatim>\<open>||\<close> would turn an
  empty string into \<^verbatim>\<open>null\<close>; an inherited name gives the inherited member, which is
  truthy; any other name gives \<^verbatim>\<open>undefined\<close>, which \<^verbatim>\<open>||\<close> turns into \<^verbatim>\<open>null\<close>.
\<close>

definition mapToVRMBlendShape :: "string \<Rightarrow> lookup" where
  "mapToVRMBlendShape shapeName =
     (case map_of mapping shapeName of
        Some vrmName \<Rightarrow> if vrmName = [] then Null else Target vrmName
      | None \<Rightarrow> if shapeName \<in> set objectPrototypeNames then Inherited shapeName else Null)"

subsection \<open>Rig applier\<close>

text \<open>
  One round of the \<^verbatim>\<open>forEach\<close> in \<^verbatim>\<open>applyBlendShapes\<close>: the calls made so far and
  the rig, before and after the entry. \<open>SetValue name w\<close> records the call
  \<^verbatim>\<open>setValue(name, w)\<close>, whether or not the rig has the channel, and
  \<open>SetValueInherited p w\<close> the call \<^verbatim>\<open>setValue(mapping[p], w)\<close> for an inherited name \<open>p\<close>.
\<close>

definition applyEntry :: "string \<times> real \<Rightarrow> effect list \<times> VRM \<Rightarrow> effect list \<times> VRM" where
  "applyEntry entry acc =
     (case entry of (shapeName, v) \<Rightarrow>
      case acc of (fx, vrm) \<Rightarrow>
        (case mapToVRMBlendShape shapeName of
           Null \<Rightarrow> (fx, vrm)
         | Target vrmBlendShapeName \<Rightarrow>
             (case expressionManager vrm of
                None \<Rightarrow> (fx, vrm)
              | Some em \<Rightarrow>
                  (fx @ [SetValue vrmBlendShapeName (max 0 (min 1 v))],
                   case setValue em vrmBlendShapeName (max 0 (min 1 v)) of
                     None \<Rightarrow> vrm
                   | Some em' \<Rightarrow> vrm\<lparr>expressionManager := Some em'\<rparr>))
         | Inherited p \<Rightarrow>
             (case expressionManager vrm of
                None \<Rightarrow> (fx, vrm)
              | Some em \<Rightarrow>
                  (fx @ [SetValueInherited p (max 0 (min 1 v))],
                   case setValueNonString em of
                     None \<Rightarrow> vrm
                   | Some em' \<Rightarrow> vrm\<lparr>expressionManager := Some em'\<rparr>))))"

fun forEachEntry :: "(string \<times> real) list \<Rightarrow> effect list \<times> VRM \<Rightarrow> effect list \<times> VRM" where
  "forEachEntry [] acc = acc"
| "forEachEntry (entry # entries) acc = forEachEntry entries (applyEntry entry acc)"

definition applyBlendShapes :: "VRM \<Rightarrow> (string \<times> real) list \<Rightarrow> effect list \<times> VRM" where
  "applyBlendShapes vrm shapes =
     (if expressionManager vrm = None then ([], vrm)
      else forEachEntry shapes ([], vrm))"

definition degToRad :: "real \<Rightarrow> real" where
  "degToRad degrees = degrees * (pi / 180)"

definition applyHeadRotation :: "VRM \<Rightarrow> vec3 \<Rightarrow> effect list \<times> VRM" where
  "applyHeadRotation vrm rot =
     (case humanoid vrm of
        None \<Rightarrow> ([], vrm)
      | Some h \<Rightarrow>
          (case head h of
             None \<Rightarrow> ([], vrm)
           | Some _ \<Rightarrow>
               (let r = Vec3 (degToRad (vx rot * 0.5)) (degToRad (vy rot * 0.5))
                          (degToRad (vz rot * 0.5))
                in ([HeadRotation r], vrm\<lparr>humanoid := Some (h\<lparr>head := Some r\<rparr>)\<rparr>))))"

subsection \<open>Clock\<close>

text \<open>
  \<^verbatim>\<open>THREE.Clock\<close> is library code. \<^verbatim>\<open>getDelta\<close> follows the library: the first call
  of an auto-starting clock starts it and returns \<open>0\<close>; a later call returns the seconds
  since the previous call and moves \<^verbatim>\<open>oldTime\<close> to now. The argument \<open>now\<close> is the
  reading of \<^verbatim>\<open>performance.now()\<close>, in milliseconds, at the call.
\<close>

record Clock =
  autoStart :: bool
  startTime :: real
  oldTime :: real
  elapsedTime :: real
  running :: bool

definition getDelta :: "real \<Rightarrow> Clock \<Rightarrow> real \<times> Clock" where
  "getDelta now c =
     (if autoStart c \<and> \<not> running c then
        (0, c\<lparr>startTime := now, oldTime := now, elapsedTime := 0, running := True\<rparr>)
      else if running c then
        (let diff = (now - oldTime c) / 1000
         in (diff, c\<lparr>oldTime := now, elapsedTime := elapsedTime c + diff\<rparr>))
      else (0, c))"

text \<open>\<^verbatim>\<open>Math.round(x)\<close> is \<open>\<lfloor>x + 1/2\<rfloor>\<close>; \<^verbatim>\<open>1 / 0\<close> is \<^verbatim>\<open>Infinity\<close>, which it keeps.\<close>

definition mathRound :: "real \<Rightarrow> int" where
  "mathRound r = \<lfloor>r + 1 / 2\<rfloor>"

definition roundedInverse :: "real \<Rightarrow> fps" where
  "roundedInverse delta = (if delta = 0 then Infinity else Fps (mathRound (1 / delta)))"

subsection \<open>Render loop\<close>

text \<open>
  What \<^verbatim>\<open>animate\<close> reads: the refs of the component (a flag says whether the ref holds an
  object) and the tracking sample its closure captured.
\<close>

record AvatarCanvas =
  statsRef :: bool
  clockRef :: Clock
  vrmRef :: "VRM option"
  rendererRef :: bool
  sceneRef :: bool
  cameraRef :: bool
  currentTrackingData :: "FaceTrackingData option"

definition handleFaceTrackingUpdate :: "FaceTrackingData \<Rightarrow> AvatarCanvas \<Rightarrow> AvatarCanvas" where
  "handleFaceTrackingUpdate d st = st\<lparr>currentTrackingData := Some d\<rparr>"

text \<open>
  The tracking part of the tick: lines 110 to 113. \<^verbatim>\<open>applyHeadRotation\<close> runs on the rig
  that \<^verbatim>\<open>applyBlendShapes\<close> left.
\<close>

definition applyTracking :: "FaceTrackingData option \<Rightarrow> VRM \<Rightarrow> effect list \<times> VRM" where
  "applyTracking tracking vrm =
     (case tracking of
        None \<Rightarrow> ([], vrm)
      | Some d \<Rightarrow>
          if isActive d then
            (let (fx1, vrm1) = applyBlendShapes vrm (blendShapes d);
                 (fx2, vrm2) = applyHeadRotation vrm1 (rotation d)
             in (fx1 @ fx2, vrm2))
          else ([], vrm))"

text \<open>
  One call of \<^verbatim>\<open>animate\<close>. \<open>now1\<close> and \<open>now2\<close> are the readings of
  \<^verbatim>\<open>performance.now()\<close> at the first and at the second \<^verbatim>\<open>getDelta\<close> of the tick;
  without a stats panel only the second call happens.
\<close>

definition animate :: "real \<Rightarrow> real \<Rightarrow> AvatarCanvas \<Rightarrow> effect list \<times> AvatarCanvas" where
  "animate now1 now2 st =
     (let (fxStats, clock1) =
            (if statsRef st then
               (let (d, c) = getDelta now1 (clockRef st)
                in ([StatsBegin, FPSUpdate (roundedInverse d)], c))
             else ([], clockRef st));
          (deltaTime, clock2) = getDelta now2 clock1;
          (fxVrm, vrm') =
            (case vrmRef st of
               None \<Rightarrow> ([], None)
             | Some vrm \<Rightarrow>
                 (let (fx, vrm1) = applyTracking (currentTrackingData st) vrm
                  in (fx @ [VrmUpdate deltaTime], Some vrm1)));
          fxRender = (if rendererRef st \<and> sceneRef st \<and> cameraRef st then [Render] else []);
          fxEnd = (if statsRef st then [StatsEnd] else [])
      in ([RequestAnimationFrame] @ fxStats @ fxVrm @ fxRender @ fxEnd,
          st\<lparr>clockRef := clock2, vrmRef := vrm'\<rparr>))"

section \<open>Control panel (components/UIControls.tsx)\<close>

text \<open>
  The \<^verbatim>\<open>onUpdate\<close> that \<^verbatim>\<open>UIControls\<close> passes to \<^verbatim>\<open>useAudioLipSync\<close>: it logs the
  sample and does nothing else (the source's comment says that sending it to the rig is
  left for later). The component holds no reference to the rig.
\<close>

definition lipSyncOnUpdate :: "AudioLipSyncData \<Rightarrow> effect list" where
  "lipSyncOnUpdate d = [ConsoleLog d]"

definition isRigWrite :: "effect \<Rightarrow> bool" where
  "isRigWrite e =
     (case e of
        SetValue _ _ \<Rightarrow> True
      | SetValueInherited _ _ \<Rightarrow> True
      | HeadRotation _ \<Rightarrow> True
      | _ \<Rightarrow> False)"

definition isFPSUpdate :: "effect \<Rightarrow> bool" where
  "isFPSUpdate e = (case e of FPSUpdate _ \<Rightarrow> True | _ \<Rightarrow> False)"

definition isVrmUpdate :: "effect \<Rightarrow> bool" where
  "isVrmUpdate e = (case e of VrmUpdate _ \<Rightarrow> True | _ \<Rightarrow> False)"

section \<open>The specification's clamp, and an example rig\<close>

text \<open>
  Clamping to \<open>[0, 1]\<close> as the specification words it, to be compared with the source's
  \<^verbatim>\<open>Math.max(0, Math.min(1, value))\<close>.
\<close>

definition spec_clamp01 :: "real \<Rightarrow> real" where
  "spec_clamp01 v = (if v < 0 then 0 else if 1 < v then 1 else v)"

text \<open>
  The call one entry of a sample gives rise to, with the weight clamped as the specification
  words it: none when the lookup gives \<^verbatim>\<open>null\<close>, else one call with the clamped weight.
\<close>

definition clampedCalls :: "string \<times> real \<Rightarrow> effect list" where
  "clampedCalls e =
     (case mapToVRMBlendShape (fst e) of
        Null \<Rightarrow> []
      | Target t \<Rightarrow> [SetValue t (spec_clamp01 (snd e))]
      | Inherited p \<Rightarrow> [SetValueInherited p (spec_clamp01 (snd e))])"

text \<open>
  A rig with the five mouth channels and a head bone, and a canvas holding it whose clock
  was last read at time \<open>0\<close> and whose current sample is the inactive one.
\<close>

definition exampleRig :: VRM where
  "exampleRig =
     \<lparr> expressionManager =
         Some \<lparr> weights = [''aa'' \<mapsto> 0, ''ih'' \<mapsto> 0, ''ou'' \<mapsto> 0, ''ee'' \<mapsto> 0, ''oh'' \<mapsto> 0],
                throwsOnUnknown = True \<rparr>,
       humanoid = Some \<lparr> head = Some (Vec3 0 0 0) \<rparr> \<rparr>"

text \<open>
  The canvas as the component leaves it after mounting: the stats panel, renderer, scene and
  camera exist, the clock is new, no tracking sample has arrived, and \<^verbatim>\<open>vrmRef.current\<close> is
  null. Nothing in the sources assigns \<^verbatim>\<open>vrmRef.current\<close>: \<^verbatim>\<open>loadDefaultVRM\<close> adds
  placeholder meshes to the scene and its call to load a VRM file is commented out.
\<close>

definition initialCanvas :: AvatarCanvas where
  "initialCanvas =
     \<lparr> statsRef = True,
       clockRef = \<lparr> autoStart = True, startTime = 0, oldTime = 0, elapsedTime = 0, running = False \<rparr>,
       vrmRef = None,
       rendererRef = True, sceneRef = True, cameraRef = True,
       currentTrackingData = None \<rparr>"

definition exampleCanvas :: AvatarCanvas where
  "exampleCanvas =
     \<lparr> statsRef = True,
       clockRef = \<lparr> autoStart = True, startTime = 0, oldTime = 0, elapsedTime = 0, running = True \<rparr>,
       vrmRef = Some exampleRig,
       rendererRef = True, sceneRef = True, cameraRef = True,
       currentTrackingData = Some inactiveData \<rparr>"

section \<open>Properties of the audio envelope estimator\<close>

lemma foldl_sumBytes_le:
  "foldl (\<lambda>sum v. sum + unat (v :: 8 word)) a xs \<le> a + 255 * length xs"
proof (induction xs arbitrary: a)
  case Nil
  show ?case by simp
next
  case (Cons v xs)
  have "unat v < 2 ^ 8" using unsigned_less [of v] by simp
  then have v: "unat v \<le> 255" by simp
  have "foldl (\<lambda>sum v. sum + unat v) (a + unat v) xs \<le> (a + unat v) + 255 * length xs"
    by (rule Cons.IH)
  with v show ?case by simp
qed

lemma sumBytes_le: "sumBytes d \<le> 255 * length d"
  using foldl_sumBytes_le [of 0 d] by (simp add: sumBytes_def)

lemma normalizedVolume_range:
  assumes "d \<noteq> []"
  shows "0 \<le> real (sumBytes d) / real (length d) / 255"
    and "real (sumBytes d) / real (length d) / 255 \<le> 1"
proof -
  have len: "0 < real (length d)" using assms by simp
  have "real (sumBytes d) \<le> 255 * real (length d)"
    using sumBytes_le [of d] by (metis of_nat_le_iff of_nat_mult of_nat_numeral)
  then have "real (sumBytes d) / real (length d) \<le> 255"
    using len by (simp add: pos_divide_le_eq)
  then show "real (sumBytes d) / real (length d) / 255 \<le> 1" by simp
  show "0 \<le> real (sumBytes d) / real (length d) / 255" by simp
qed

lemma smoothed_range:
  assumes "0 \<le> (v::real)" "v \<le> 1"
  shows "0 \<le> v powr 0.7" and "v powr 0.7 \<le> 1"
proof -
  show "0 \<le> v powr 0.7" by simp
  have "v powr 0.7 \<le> 1 powr 0.7"
    using assms by (intro powr_mono2) simp_all
  then show "v powr 0.7 \<le> 1" by simp
qed

lemma half_smoothed: "(1 / 2 :: real) \<le> (1 / 2) powr 0.7"
proof -
  have "(1 / 2 :: real) powr 1 \<le> (1 / 2) powr 0.7"
    by (rule powr_mono') simp_all
  then show ?thesis by simp
qed

text \<open>
  Claim C2. For every volume \<open>v\<close> in \<open>[0, 1]\<close> each viseme weight is the smoothed volume
  \<open>v powr 0.7\<close> times the gain of the viseme when the smoothed volume is above the threshold of
  the viseme, and \<open>0\<close> otherwise; and \<^verbatim>\<open>analyzeAudio\<close> emits exactly this sample for a data
  array whose normalised mean is \<open>v\<close>.
\<close>

theorem analyzeAudio_viseme_table:
  assumes "0 \<le> v" and "v \<le> 1"
  shows "visemeA (audioLipSyncData v) = (if v powr 0.7 > 0.10 then v powr 0.7 * 0.8 else 0)
       \<and> visemeI (audioLipSyncData v) = (if v powr 0.7 > 0.05 then v powr 0.7 * 0.6 else 0)
       \<and> visemeU (audioLipSyncData v) = (if v powr 0.7 > 0.03 then v powr 0.7 * 0.4 else 0)
       \<and> visemeE (audioLipSyncData v) = (if v powr 0.7 > 0.07 then v powr 0.7 * 0.5 else 0)
       \<and> visemeO (audioLipSyncData v) = (if v powr 0.7 > 0.04 then v powr 0.7 * 0.7 else 0)
       \<and> (dataArray \<noteq> [] \<and> real (sumBytes dataArray) / real (length dataArray) / 255 = v
            \<longrightarrow> analyzeAudio (Some dataArray) True = Emitted (audioLipSyncData v))"
  by (auto simp add: audioLipSyncData_def analyzeAudio_def Let_def)

theorem analyzeAudio_viseme_table_witness:
  "visemeA (audioLipSyncData 0) = 0 \<and> visemeI (audioLipSyncData 0) = 0
   \<and> visemeU (audioLipSyncData 0) = 0 \<and> visemeE (audioLipSyncData 0) = 0
   \<and> visemeO (audioLipSyncData 0) = 0
   \<and> visemeA (audioLipSyncData (1 / 2)) = (1 / 2) powr 0.7 * 0.8
   \<and> visemeI (audioLipSyncData (1 / 2)) = (1 / 2) powr 0.7 * 0.6
   \<and> visemeU (audioLipSyncData (1 / 2)) = (1 / 2) powr 0.7 * 0.4
   \<and> visemeE (audioLipSyncData (1 / 2)) = (1 / 2) powr 0.7 * 0.5
   \<and> visemeO (audioLipSyncData (1 / 2)) = (1 / 2) powr 0.7 * 0.7
   \<and> visemeA (audioLipSyncData 1) = 0.8 \<and> visemeI (audioLipSyncData 1) = 0.6
   \<and> visemeU (audioLipSyncData 1) = 0.4 \<and> visemeE (audioLipSyncData 1) = 0.5
   \<and> visemeO (audioLipSyncData 1) = 0.7
   \<and> analyzeAudio (Some [255, 0]) True = Emitted (audioLipSyncData (1 / 2))"
proof -
  have z: "(0::real) \<le> 0" "(0::real) \<le> 1" "(0::real) \<le> 1 / 2" "(1 / 2 ::real) \<le> 1" "(1::real) \<le> 1"
    by simp_all
  have d: "[255, 0 :: 8 word] \<noteq> [] \<and> real (sumBytes [255, 0]) / real (length [255, 0 :: 8 word]) / 255 = 1 / 2"
    by (simp add: sumBytes_def)
  note at0 = analyzeAudio_viseme_table [OF z(1) z(2), of "[]"]
  note at1 = analyzeAudio_viseme_table [OF z(2) z(5), of "[]"]
  note ath = analyzeAudio_viseme_table [OF z(3) z(4), of "[255, 0]"]
  have big: "(1 / 2 :: real) powr 0.7 > 0.10" "(1 / 2 :: real) powr 0.7 > 0.05"
    "(1 / 2 :: real) powr 0.7 > 0.03" "(1 / 2 :: real) powr 0.7 > 0.07"
    "(1 / 2 :: real) powr 0.7 > 0.04"
    using half_smoothed by simp_all
  from at0 have a: "visemeA (audioLipSyncData 0) = 0 \<and> visemeI (audioLipSyncData 0) = 0
   \<and> visemeU (audioLipSyncData 0) = 0 \<and> visemeE (audioLipSyncData 0) = 0
   \<and> visemeO (audioLipSyncData 0) = 0" by simp
  from at1 have b: "visemeA (audioLipSyncData 1) = 0.8 \<and> visemeI (audioLipSyncData 1) = 0.6
   \<and> visemeU (audioLipSyncData 1) = 0.4 \<and> visemeE (audioLipSyncData 1) = 0.5
   \<and> visemeO (audioLipSyncData 1) = 0.7" by simp
  from ath big d have c: "visemeA (audioLipSyncData (1 / 2)) = (1 / 2) powr 0.7 * 0.8
   \<and> visemeI (audioLipSyncData (1 / 2)) = (1 / 2) powr 0.7 * 0.6
   \<and> visemeU (audioLipSyncData (1 / 2)) = (1 / 2) powr 0.7 * 0.4
   \<and> visemeE (audioLipSyncData (1 / 2)) = (1 / 2) powr 0.7 * 0.5
   \<and> visemeO (audioLipSyncData (1 / 2)) = (1 / 2) powr 0.7 * 0.7
   \<and> analyzeAudio (Some [255, 0]) True = Emitted (audioLipSyncData (1 / 2))" by simp
  from a b c show ?thesis by blast
qed

text \<open>
  Claim C10. For a non-empty array of bytes \<^verbatim>\<open>analyzeAudio\<close> emits a sample whose volume lies
  in \<open>[0, 1]\<close> and whose viseme weights lie between \<open>0\<close> and the gain of the viseme, although
  nothing clamps them.
\<close>

theorem analyzeAudio_bounds:
  assumes "dataArray \<noteq> []"
  shows "0 \<le> real (sumBytes dataArray) / real (length dataArray) / 255
       \<and> real (sumBytes dataArray) / real (length dataArray) / 255 \<le> 1
       \<and> (\<exists>d. analyzeAudio (Some dataArray) True = Emitted d
           \<and> 0 \<le> volume d \<and> volume d \<le> 1
           \<and> 0 \<le> visemeA d \<and> visemeA d \<le> 0.8
           \<and> 0 \<le> visemeI d \<and> visemeI d \<le> 0.6
           \<and> 0 \<le> visemeU d \<and> visemeU d \<le> 0.4
           \<and> 0 \<le> visemeE d \<and> visemeE d \<le> 0.5
           \<and> 0 \<le> visemeO d \<and> visemeO d \<le> 0.7)"
proof -
  let ?v = "real (sumBytes dataArray) / real (length dataArray) / 255"
  have v: "0 \<le> ?v" "?v \<le> 1" using normalizedVolume_range [OF assms] by simp_all
  have s: "0 \<le> ?v powr 0.7" "?v powr 0.7 \<le> 1" using smoothed_range [OF v] by simp_all
  have e: "analyzeAudio (Some dataArray) True = Emitted (audioLipSyncData ?v)"
    using assms by (simp add: analyzeAudio_def)
  have "0 \<le> volume (audioLipSyncData ?v) \<and> volume (audioLipSyncData ?v) \<le> 1
      \<and> 0 \<le> visemeA (audioLipSyncData ?v) \<and> visemeA (audioLipSyncData ?v) \<le> 0.8
      \<and> 0 \<le> visemeI (audioLipSyncData ?v) \<and> visemeI (audioLipSyncData ?v) \<le> 0.6
      \<and> 0 \<le> visemeU (audioLipSyncData ?v) \<and> visemeU (audioLipSyncData ?v) \<le> 0.4
      \<and> 0 \<le> visemeE (audioLipSyncData ?v) \<and> visemeE (audioLipSyncData ?v) \<le> 0.5
      \<and> 0 \<le> visemeO (audioLipSyncData ?v) \<and> visemeO (audioLipSyncData ?v) \<le> 0.7"
    using s by (simp add: audioLipSyncData_def Let_def)
  with e v show ?thesis by blast
qed

theorem analyzeAudio_bounds_witness:
  "[255, 255 :: 8 word] \<noteq> []
   \<and> (\<exists>d. analyzeAudio (Some [255, 255]) True = Emitted d
           \<and> 0 \<le> volume d \<and> volume d \<le> 1
           \<and> 0 \<le> visemeA d \<and> visemeA d \<le> 0.8
           \<and> 0 \<le> visemeI d \<and> visemeI d \<le> 0.6
           \<and> 0 \<le> visemeU d \<and> visemeU d \<le> 0.4
           \<and> 0 \<le> visemeE d \<and> visemeE d \<le> 0.5
           \<and> 0 \<le> visemeO d \<and> visemeO d \<le> 0.7)
   \<and> analyzeAudio (Some [255, 255]) True =
       Emitted \<lparr>volume = 1, visemeA = 0.8, visemeI = 0.6, visemeU = 0.4, visemeE = 0.5, visemeO = 0.7\<rparr>"
proof -
  have ne: "[255, 255 :: 8 word] \<noteq> []" by simp
  have ev: "analyzeAudio (Some [255, 255]) True =
       Emitted \<lparr>volume = 1, visemeA = 0.8, visemeI = 0.6, visemeU = 0.4, visemeE = 0.5, visemeO = 0.7\<rparr>"
    by (simp add: analyzeAudio_def sumBytes_def audioLipSyncData_def)
  from analyzeAudio_bounds [OF ne]
  have "\<exists>d. analyzeAudio (Some [255, 255]) True = Emitted d
           \<and> 0 \<le> volume d \<and> volume d \<le> 1
           \<and> 0 \<le> visemeA d \<and> visemeA d \<le> 0.8
           \<and> 0 \<le> visemeI d \<and> visemeI d \<le> 0.6
           \<and> 0 \<le> visemeU d \<and> visemeU d \<le> 0.4
           \<and> 0 \<le> visemeE d \<and> visemeE d \<le> 0.5
           \<and> 0 \<le> visemeO d \<and> visemeO d \<le> 0.7"
    by (elim conjE)
  with ne ev show ?thesis by blast
qed

section \<open>Properties of the frame decimator\<close>

lemma onResults_count: "fst (onResults solve r c) = Suc c"
  by (simp add: onResults_def Let_def)

lemma onResultsSeq_length: "length (onResultsSeq solve rs c) = length rs"
  by (induction rs arbitrary: c) simp_all

lemma onResultsSeq_nth:
  "k < length rs \<Longrightarrow> onResultsSeq solve rs c ! k = snd (onResults solve (rs ! k) (c + k))"
proof (induction rs arbitrary: c k)
  case Nil
  then show ?case by simp
next
  case (Cons r rs)
  show ?case
  proof (cases k)
    case 0
    then show ?thesis by simp
  next
    case (Suc j)
    with Cons.prems have "j < length rs" by simp
    from Cons.IH [OF this, of "Suc c"] Suc show ?thesis
      by (simp add: onResults_count)
  qed
qed

lemma onResults_forwarded: "isForwarded (snd (onResults solve r c)) = (3 dvd Suc c)"
  by (simp add: onResults_def isForwarded_def Let_def dvd_eq_mod_eq_0)

lemma onResults_solverCalls:
  "solverCalls (snd (onResults solve r c)) =
     (if 3 dvd Suc c then (case r of Some (l # _) \<Rightarrow> [l] | _ \<Rightarrow> []) else [])"
  by (simp add: onResults_def Let_def dvd_eq_mod_eq_0 split: option.splits list.splits solved.splits)

lemma forwardedPositions_eq:
  "forwardedPositions (onResultsSeq solve rs 0) = filter (\<lambda>k. 3 dvd k) [1..<Suc (length rs)]"
  unfolding forwardedPositions_def onResultsSeq_length
proof (rule filter_cong [OF refl])
  fix k assume "k \<in> set [1..<Suc (length rs)]"
  then have k: "0 < k" "k - 1 < length rs" by auto
  from onResultsSeq_nth [OF k(2), of solve 0] k(1)
  show "isForwarded (onResultsSeq solve rs 0 ! (k - 1)) = (3 dvd k)"
    by (simp add: onResults_forwarded)
qed

lemma count_third: "length (filter (\<lambda>k. 3 dvd k) [1..<Suc n]) = n div 3"
proof (induction n)
  case 0
  show ?case by simp
next
  case (Suc n)
  have "length (filter (\<lambda>k. 3 dvd k) [1..<Suc (Suc n)]) =
        n div 3 + (if 3 dvd Suc n then 1 else 0)"
    using Suc.IH by simp
  also have "\<dots> = Suc n div 3"
    by (auto simp: dvd_eq_mod_eq_0 div_Suc)
  finally show ?case .
qed

lemma nine: "filter (\<lambda>k. 3 dvd k) [1..<Suc 9] = [3, 6, 9::nat]"
  by code_simp

text \<open>
  Claim C3. Starting from a counter of \<open>0\<close>, of any sequence of results the callback lets
  through exactly those at the positions divisible by 3 and returns early on the others,
  whatever the frames hold; a frame let through reaches the solver once when it has a face.
  Of nine frames the third, sixth and ninth pass.
\<close>

theorem frameDecimator_every_third:
  "forwardedPositions (onResultsSeq solve rs 0) = filter (\<lambda>k. 3 dvd k) [1..<Suc (length rs)]
   \<and> length (forwardedPositions (onResultsSeq solve rs 0)) = length rs div 3
   \<and> (\<forall>k < length rs.
         isForwarded (onResultsSeq solve rs 0 ! k) = (3 dvd Suc k)
       \<and> solverCalls (onResultsSeq solve rs 0 ! k) =
           (if 3 dvd Suc k then (case rs ! k of Some (l # _) \<Rightarrow> [l] | _ \<Rightarrow> []) else []))
   \<and> (length rs = 9 \<longrightarrow> forwardedPositions (onResultsSeq solve rs 0) = [3, 6, 9])"
proof (intro conjI allI impI)
  show "forwardedPositions (onResultsSeq solve rs 0) = filter (\<lambda>k. 3 dvd k) [1..<Suc (length rs)]"
    by (rule forwardedPositions_eq)
  show "length (forwardedPositions (onResultsSeq solve rs 0)) = length rs div 3"
    by (simp only: forwardedPositions_eq count_third)
next
  fix k assume "k < length rs"
  from onResultsSeq_nth [OF this, of solve 0]
  have nth: "onResultsSeq solve rs 0 ! k = snd (onResults solve (rs ! k) k)" by simp
  show "isForwarded (onResultsSeq solve rs 0 ! k) = (3 dvd Suc k)"
    by (simp only: nth onResults_forwarded)
  show "solverCalls (onResultsSeq solve rs 0 ! k) =
           (if 3 dvd Suc k then (case rs ! k of Some (l # _) \<Rightarrow> [l] | _ \<Rightarrow> []) else [])"
    by (simp only: nth onResults_solverCalls)
next
  assume "length rs = 9"
  then show "forwardedPositions (onResultsSeq solve rs 0) = [3, 6, 9]"
    using nine by (simp only: forwardedPositions_eq)
qed

theorem frameDecimator_every_third_witness:
  "length (map (\<lambda>k. Some [k]) [1..<10::nat]) = 9
   \<and> forwardedPositions (onResultsSeq (\<lambda>l. Falsy) (map (\<lambda>k. Some [k]) [1..<10::nat]) 0) = [3, 6, 9]
   \<and> solverCalls (onResultsSeq (\<lambda>l. Falsy) (map (\<lambda>k. Some [k]) [1..<10::nat]) 0 ! 2) = [3]
   \<and> solverCalls (onResultsSeq (\<lambda>l. Falsy) (map (\<lambda>k. Some [k]) [1..<10::nat]) 0 ! 3) = []"
proof -
  let ?rs = "map (\<lambda>k. Some [k]) [1..<10::nat]"
  have len: "length ?rs = 9" by simp
  have rs: "?rs = [Some [1], Some [2], Some [3], Some [4], Some [5], Some [6], Some [7], Some [8], Some [9]]"
    by (simp add: upt_rec)
  note t = frameDecimator_every_third [of "\<lambda>l. Falsy" ?rs]
  from t len have a: "forwardedPositions (onResultsSeq (\<lambda>l. Falsy) ?rs 0) = [3, 6, 9]" by blast
  from t have n: "\<forall>k < length ?rs. solverCalls (onResultsSeq (\<lambda>l. Falsy) ?rs 0 ! k) =
           (if 3 dvd Suc k then (case ?rs ! k of Some (l # _) \<Rightarrow> [l] | _ \<Rightarrow> []) else [])" by blast
  have b: "solverCalls (onResultsSeq (\<lambda>l. Falsy) ?rs 0 ! 2) = [3]"
    using n [rule_format, of 2] unfolding rs by simp
  have c: "solverCalls (onResultsSeq (\<lambda>l. Falsy) ?rs 0 ! 3) = []"
    using n [rule_format, of 3] unfolding rs by simp
  from len a b c show ?thesis by blast
qed

section \<open>Properties of the render tick\<close>

lemma applyTracking_inactive:
  "tracking = Some d \<Longrightarrow> \<not> isActive d \<Longrightarrow> applyTracking tracking vrm = ([], vrm)"
  by (simp add: applyTracking_def)

lemma animate_effects:
  "fst (animate now1 now2 st) =
     [RequestAnimationFrame]
     @ (if statsRef st then [StatsBegin, FPSUpdate (roundedInverse (fst (getDelta now1 (clockRef st))))] else [])
     @ (case vrmRef st of None \<Rightarrow> []
        | Some vrm \<Rightarrow> fst (applyTracking (currentTrackingData st) vrm)
            @ [VrmUpdate (fst (getDelta now2
                 (if statsRef st then snd (getDelta now1 (clockRef st)) else clockRef st)))])
     @ (if rendererRef st \<and> sceneRef st \<and> cameraRef st then [Render] else [])
     @ (if statsRef st then [StatsEnd] else [])"
  by (simp add: animate_def Let_def split_beta split: option.splits)

lemma animate_vrmRef:
  "vrmRef (snd (animate now1 now2 st)) =
     (case vrmRef st of None \<Rightarrow> None
      | Some vrm \<Rightarrow> Some (snd (applyTracking (currentTrackingData st) vrm)))"
  by (simp add: animate_def Let_def split_beta split: option.splits)

lemma applyEntry_rigWrites:
  "filter isRigWrite (fst (applyEntry e acc)) = fst (applyEntry e acc)" if "filter isRigWrite (fst acc) = fst acc"
  using that
  by (cases e; cases acc)
     (simp add: applyEntry_def isRigWrite_def split: option.splits lookup.splits)

lemma forEachEntry_rigWrites:
  "filter isRigWrite (fst acc) = fst acc \<Longrightarrow>
   filter isRigWrite (fst (forEachEntry es acc)) = fst (forEachEntry es acc)"
  by (induction es arbitrary: acc) (simp_all add: applyEntry_rigWrites)

lemma applyBlendShapes_rigWrites:
  "filter isRigWrite (fst (applyBlendShapes vrm shapes)) = fst (applyBlendShapes vrm shapes)"
  by (simp add: applyBlendShapes_def forEachEntry_rigWrites)

lemma applyHeadRotation_rigWrites:
  "filter isRigWrite (fst (applyHeadRotation vrm rot)) = fst (applyHeadRotation vrm rot)"
  by (simp add: applyHeadRotation_def isRigWrite_def Let_def split: option.splits)

lemma applyTracking_rigWrites:
  "filter isRigWrite (fst (applyTracking tracking vrm)) = fst (applyTracking tracking vrm)"
  by (simp add: applyTracking_def split_beta Let_def applyBlendShapes_rigWrites
      applyHeadRotation_rigWrites split: option.splits)

lemma animate_rigWrites:
  "filter isRigWrite (fst (animate now1 now2 st)) =
     (case vrmRef st of None \<Rightarrow> [] | Some vrm \<Rightarrow> fst (applyTracking (currentTrackingData st) vrm))"
  by (simp add: animate_effects isRigWrite_def applyTracking_rigWrites split: option.splits)

lemma inactive_sample_no_tracking_write:
  assumes "currentTrackingData st = Some d" and "\<not> isActive d"
  shows "filter isRigWrite (fst (animate now1 now2 st)) = []"
  using assms
  by (simp add: animate_rigWrites applyTracking_inactive split: option.splits)

lemma no_rig_no_write:
  assumes "vrmRef st = None"
  shows "filter isRigWrite (fst (animate now1 now2 st)) = []"
    and "vrmRef (snd (animate now1 now2 st)) = None"
    and "vrmRef (handleFaceTrackingUpdate d st) = None"
  using assms
  by (simp_all add: animate_rigWrites animate_vrmRef handleFaceTrackingUpdate_def)

lemma exampleCanvas_tick:
  "animate 16 17 exampleCanvas =
     ([RequestAnimationFrame, StatsBegin, FPSUpdate (Fps 63), VrmUpdate (1 / 1000), Render, StatsEnd],
      exampleCanvas\<lparr>clockRef := \<lparr> autoStart = True, startTime = 0, oldTime = 17,
                                  elapsedTime = 17 / 1000, running = True \<rparr>\<rparr>)"
  by (simp add: animate_def exampleCanvas_def getDelta_def applyTracking_def inactiveData_def
      roundedInverse_def mathRound_def Let_def)

lemma foldl_sumBytes_replicate:
  "foldl (\<lambda>sum v. sum + unat (v :: 8 word)) a (replicate n 255) = a + 255 * n"
  by (induction n arbitrary: a) simp_all

lemma analyzeAudio_full_scale:
  "analyzeAudio (Some (replicate 128 255)) True =
     Emitted \<lparr>volume = 1, visemeA = 0.8, visemeI = 0.6, visemeU = 0.4, visemeE = 0.5, visemeO = 0.7\<rparr>"
proof -
  have ne: "replicate 128 (255 :: 8 word) \<noteq> []" by simp
  have "real (sumBytes (replicate 128 255)) / real (length (replicate 128 (255 :: 8 word))) / 255 = 1"
    by (simp add: sumBytes_def foldl_sumBytes_replicate)
  then have "analyzeAudio (Some (replicate 128 255)) True = Emitted (audioLipSyncData 1)"
    using ne by (simp add: analyzeAudio_def Let_def)
  then show ?thesis by (simp add: audioLipSyncData_def)
qed

text \<open>
  Claim C1 at a concrete input. The analyser's 128 bins are all at full scale, so the
  estimator emits the viseme weights \<open>0.8, 0.6, 0.4, 0.5, 0.7\<close>; the current tracking sample
  is the inactive one. The callback that receives the audio sample logs it and does nothing
  else, and the render tick of that moment makes no rig write at all: not on the canvas as
  the component mounts it, which holds no rig, and not on a canvas whose rig has the five
  mouth channels. The tracking half of the claim holds there, the audio half does not: no
  viseme weight is looked up, clamped or written.
\<close>

theorem viseme_weights_never_written:
  "analyzeAudio (Some (replicate 128 255)) True =
     Emitted \<lparr>volume = 1, visemeA = 0.8, visemeI = 0.6, visemeU = 0.4, visemeE = 0.5, visemeO = 0.7\<rparr>
   \<and> lipSyncOnUpdate \<lparr>volume = 1, visemeA = 0.8, visemeI = 0.6, visemeU = 0.4, visemeE = 0.5, visemeO = 0.7\<rparr>
       = [ConsoleLog \<lparr>volume = 1, visemeA = 0.8, visemeI = 0.6, visemeU = 0.4, visemeE = 0.5, visemeO = 0.7\<rparr>]
   \<and> isActive inactiveData = False
   \<and> fst (animate 16 17 (handleFaceTrackingUpdate inactiveData initialCanvas)) =
       [RequestAnimationFrame, StatsBegin, FPSUpdate Infinity, Render, StatsEnd]
   \<and> currentTrackingData exampleCanvas = Some inactiveData
   \<and> fst (animate 16 17 exampleCanvas) =
       [RequestAnimationFrame, StatsBegin, FPSUpdate (Fps 63), VrmUpdate (1 / 1000), Render, StatsEnd]
   \<and> filter isRigWrite
        (lipSyncOnUpdate \<lparr>volume = 1, visemeA = 0.8, visemeI = 0.6, visemeU = 0.4, visemeE = 0.5, visemeO = 0.7\<rparr>
         @ fst (animate 16 17 (handleFaceTrackingUpdate inactiveData initialCanvas))
         @ fst (animate 16 17 exampleCanvas)) = []"
proof -
  have a: "fst (animate 16 17 (handleFaceTrackingUpdate inactiveData initialCanvas)) =
       [RequestAnimationFrame, StatsBegin, FPSUpdate Infinity, Render, StatsEnd]"
    by (simp add: animate_def handleFaceTrackingUpdate_def initialCanvas_def getDelta_def
        roundedInverse_def Let_def)
  have b: "isActive inactiveData = False" "currentTrackingData exampleCanvas = Some inactiveData"
    by (simp_all add: inactiveData_def exampleCanvas_def)
  from analyzeAudio_full_scale a b show ?thesis
    by (simp add: lipSyncOnUpdate_def exampleCanvas_tick isRigWrite_def)
qed

lemma animate_fpsUpdates:
  "filter isFPSUpdate (fst (animate now1 now2 st)) =
     (if statsRef st then [FPSUpdate (roundedInverse (fst (getDelta now1 (clockRef st))))] else [])"
proof -
  have rw: "filter isFPSUpdate (filter isRigWrite fx) = []" for fx
    by (induction fx) (auto simp: isRigWrite_def isFPSUpdate_def split: effect.splits)
  have "filter isFPSUpdate (fst (applyTracking t vrm)) = []" for t vrm
    using rw [of "fst (applyTracking t vrm)"] by (simp only: applyTracking_rigWrites)
  then show ?thesis
    by (simp add: animate_effects isFPSUpdate_def split: option.splits)
qed

lemma animate_vrmUpdates:
  "length (filter isVrmUpdate (fst (animate now1 now2 st))) = (case vrmRef st of None \<Rightarrow> 0 | Some _ \<Rightarrow> 1)"
proof -
  have rw: "filter isVrmUpdate (filter isRigWrite fx) = []" for fx
    by (induction fx) (auto simp: isRigWrite_def isVrmUpdate_def split: effect.splits)
  have "filter isVrmUpdate (fst (applyTracking t vrm)) = []" for t vrm
    using rw [of "fst (applyTracking t vrm)"] by (simp only: applyTracking_rigWrites)
  then show ?thesis
    by (simp add: animate_effects isVrmUpdate_def split: option.splits)
qed

text \<open>
  Claim C4, as the code has it. On a tick with the stats panel present the loop reports to
  the frame-rate observer exactly once, and what it reports is \<^verbatim>\<open>Math.round(1 / delta)\<close> for
  the first clock delta of the tick, the seconds since the clock was last read. With a rig
  loaded the tracking sample is applied to it and the rig is then advanced exactly once, after
  the rig writes and before the scene is drawn.
\<close>

theorem render_tick_reports_rounded_fps:
  assumes "statsRef st"
  shows "filter isFPSUpdate (fst (animate now1 now2 st)) =
           [FPSUpdate (roundedInverse (fst (getDelta now1 (clockRef st))))]
       \<and> (running (clockRef st) \<longrightarrow>
            fst (getDelta now1 (clockRef st)) = (now1 - oldTime (clockRef st)) / 1000)
       \<and> (running (clockRef st) \<and> now1 \<noteq> oldTime (clockRef st) \<longrightarrow>
            roundedInverse (fst (getDelta now1 (clockRef st))) =
              Fps \<lfloor>1 / ((now1 - oldTime (clockRef st)) / 1000) + 1 / 2\<rfloor>)
       \<and> (vrmRef st = Some vrm \<longrightarrow>
            filter isRigWrite (fst (animate now1 now2 st)) = fst (applyTracking (currentTrackingData st) vrm)
          \<and> vrmRef (snd (animate now1 now2 st)) = Some (snd (applyTracking (currentTrackingData st) vrm))
          \<and> length (filter isVrmUpdate (fst (animate now1 now2 st))) = 1
          \<and> (\<exists>deltaTime. fst (animate now1 now2 st) =
                [RequestAnimationFrame, StatsBegin,
                 FPSUpdate (roundedInverse (fst (getDelta now1 (clockRef st))))]
                @ fst (applyTracking (currentTrackingData st) vrm)
                @ [VrmUpdate deltaTime]
                @ (if rendererRef st \<and> sceneRef st \<and> cameraRef st then [Render] else [])
                @ [StatsEnd]))"
proof (intro conjI impI)
  show "filter isFPSUpdate (fst (animate now1 now2 st)) =
           [FPSUpdate (roundedInverse (fst (getDelta now1 (clockRef st))))]"
    using assms by (simp add: animate_fpsUpdates)
next
  assume "running (clockRef st)"
  then show "fst (getDelta now1 (clockRef st)) = (now1 - oldTime (clockRef st)) / 1000"
    by (simp add: getDelta_def Let_def)
next
  assume "running (clockRef st) \<and> now1 \<noteq> oldTime (clockRef st)"
  then show "roundedInverse (fst (getDelta now1 (clockRef st))) =
              Fps \<lfloor>1 / ((now1 - oldTime (clockRef st)) / 1000) + 1 / 2\<rfloor>"
    by (simp add: getDelta_def Let_def roundedInverse_def mathRound_def)
next
  assume v: "vrmRef st = Some vrm"
  show "filter isRigWrite (fst (animate now1 now2 st)) = fst (applyTracking (currentTrackingData st) vrm)"
    using v by (simp add: animate_rigWrites)
  show "vrmRef (snd (animate now1 now2 st)) = Some (snd (applyTracking (currentTrackingData st) vrm))"
    using v by (simp add: animate_vrmRef)
  show "length (filter isVrmUpdate (fst (animate now1 now2 st))) = 1"
    using v by (simp add: animate_vrmUpdates)
  show "\<exists>deltaTime. fst (animate now1 now2 st) =
                [RequestAnimationFrame, StatsBegin,
                 FPSUpdate (roundedInverse (fst (getDelta now1 (clockRef st))))]
                @ fst (applyTracking (currentTrackingData st) vrm)
                @ [VrmUpdate deltaTime]
                @ (if rendererRef st \<and> sceneRef st \<and> cameraRef st then [Render] else [])
                @ [StatsEnd]"
    using v assms by (simp add: animate_effects)
qed

text \<open>
  The claim as stated asks for the frame rate \<open>1 / elapsedSeconds\<close> and for the rig to advance
  by the same elapsed time. On a tick 16 ms after the last clock reading the reciprocal is
  \<open>62.5\<close> and the observer receives \<open>63\<close>; the rig is advanced by the second clock delta of
  the tick, here 1 ms, the time between the two clock readings of the same tick.
\<close>

theorem render_tick_fps_counterexample:
  "oldTime (clockRef exampleCanvas) = 0 \<and> running (clockRef exampleCanvas)
   \<and> fst (animate 16 17 exampleCanvas) =
       [RequestAnimationFrame, StatsBegin, FPSUpdate (Fps 63), VrmUpdate (1 / 1000), Render, StatsEnd]
   \<and> real_of_int 63 \<noteq> 1 / ((16 - 0) / 1000)
   \<and> (1 / 1000 :: real) \<noteq> (16 - 0) / 1000"
  by (simp add: exampleCanvas_tick) (simp add: exampleCanvas_def)

theorem render_tick_reports_rounded_fps_witness:
  "statsRef exampleCanvas \<and> running (clockRef exampleCanvas) \<and> 16 \<noteq> oldTime (clockRef exampleCanvas)
   \<and> vrmRef exampleCanvas = Some exampleRig
   \<and> filter isFPSUpdate (fst (animate 16 17 exampleCanvas)) = [FPSUpdate (Fps 63)]
   \<and> length (filter isVrmUpdate (fst (animate 16 17 exampleCanvas))) = 1
   \<and> filter isRigWrite (fst (animate 16 17 exampleCanvas)) = []"
proof -
  have s: "statsRef exampleCanvas" by (simp add: exampleCanvas_def)
  have r: "running (clockRef exampleCanvas) \<and> 16 \<noteq> oldTime (clockRef exampleCanvas)"
    by (simp add: exampleCanvas_def)
  have v: "vrmRef exampleCanvas = Some exampleRig" by (simp add: exampleCanvas_def)
  note t = render_tick_reports_rounded_fps [OF s, of 16 17 exampleRig]
  from t r have f: "roundedInverse (fst (getDelta 16 (clockRef exampleCanvas))) =
      Fps \<lfloor>1 / ((16 - oldTime (clockRef exampleCanvas)) / 1000) + 1 / 2\<rfloor>" by blast
  have "\<lfloor>1 / ((16 - oldTime (clockRef exampleCanvas)) / 1000) + 1 / 2 :: real\<rfloor> = 63"
    by (simp add: exampleCanvas_def)
  with f have f63: "roundedInverse (fst (getDelta 16 (clockRef exampleCanvas))) = Fps 63" by simp
  from t have a: "filter isFPSUpdate (fst (animate 16 17 exampleCanvas)) =
      [FPSUpdate (roundedInverse (fst (getDelta 16 (clockRef exampleCanvas))))]" by blast
  from t v have b: "length (filter isVrmUpdate (fst (animate 16 17 exampleCanvas))) = 1" by blast
  from t v have c: "filter isRigWrite (fst (animate 16 17 exampleCanvas)) =
      fst (applyTracking (currentTrackingData exampleCanvas) exampleRig)" by blast
  have "fst (applyTracking (currentTrackingData exampleCanvas) exampleRig) = []"
    by (simp add: exampleCanvas_def applyTracking_def inactiveData_def)
  with a b c f63 s r v show ?thesis by simp
qed

section \<open>Properties of the rig applier\<close>

lemma clamp_eq_spec: "max 0 (min 1 v) = spec_clamp01 v"
  by (simp add: spec_clamp01_def max_def min_def)

lemma spec_clamp01_range: "0 \<le> spec_clamp01 v \<and> spec_clamp01 v \<le> 1"
  by (simp add: spec_clamp01_def)

lemma applyEntry_manager:
  "expressionManager (snd acc) \<noteq> None \<Longrightarrow> expressionManager (snd (applyEntry e acc)) \<noteq> None"
  by (cases e; cases acc) (auto simp: applyEntry_def split: option.splits lookup.splits)

lemma applyEntry_trace:
  "expressionManager (snd acc) \<noteq> None \<Longrightarrow> fst (applyEntry e acc) = fst acc @ clampedCalls e"
  by (cases e; cases acc)
     (auto simp: applyEntry_def clampedCalls_def clamp_eq_spec split: option.splits lookup.splits)

lemma forEachEntry_trace:
  "expressionManager (snd acc) \<noteq> None \<Longrightarrow>
   fst (forEachEntry es acc) = fst acc @ concat (map clampedCalls es)"
proof (induction es arbitrary: acc)
  case Nil
  show ?case by simp
next
  case (Cons e es)
  from Cons.prems have m: "expressionManager (snd (applyEntry e acc)) \<noteq> None"
    by (rule applyEntry_manager)
  show ?case
    using Cons.IH [OF m] Cons.prems by (simp add: applyEntry_trace)
qed

lemma applyBlendShapes_trace:
  "fst (applyBlendShapes vrm shapes) =
     (if expressionManager vrm = None then [] else concat (map clampedCalls shapes))"
  by (simp add: applyBlendShapes_def forEachEntry_trace)

lemma mouthOpen_mapped: "mapToVRMBlendShape ''mouthOpen'' = Target ''aa''"
  by (simp add: mapToVRMBlendShape_def mapping_def)

text \<open>
  Claim C5. Every weight \<^verbatim>\<open>applyBlendShapes\<close> passes to \<^verbatim>\<open>setValue\<close> is the weight of the
  sample clamped to \<open>[0, 1]\<close>: the calls are, in order, one per entry whose lookup is not
  \<^verbatim>\<open>null\<close>, each with the clamped weight, so every written weight lies in \<open>[0, 1]\<close>;
  \<open>1.5\<close> is written as \<open>1.0\<close> and \<open>-0.2\<close> as \<open>0.0\<close>.
\<close>

theorem applyBlendShapes_clamps:
  "fst (applyBlendShapes vrm shapes) =
     (if expressionManager vrm = None then []
      else concat (map (\<lambda>e. case mapToVRMBlendShape (fst e) of
                              Null \<Rightarrow> []
                            | Target t \<Rightarrow> [SetValue t (spec_clamp01 (snd e))]
                            | Inherited p \<Rightarrow> [SetValueInherited p (spec_clamp01 (snd e))]) shapes))
   \<and> (\<forall>t w. SetValue t w \<in> set (fst (applyBlendShapes vrm shapes)) \<longrightarrow> 0 \<le> w \<and> w \<le> 1)
   \<and> (\<forall>p w. SetValueInherited p w \<in> set (fst (applyBlendShapes vrm shapes)) \<longrightarrow> 0 \<le> w \<and> w \<le> 1)
   \<and> (expressionManager vrm \<noteq> None \<longrightarrow>
         fst (applyBlendShapes vrm [(''mouthOpen'', 1.5)]) = [SetValue ''aa'' 1.0]
       \<and> fst (applyBlendShapes vrm [(''mouthOpen'', - 0.2)]) = [SetValue ''aa'' 0.0])"
proof -
  have ew: "clampedCalls = (\<lambda>e. case mapToVRMBlendShape (fst e) of
                              Null \<Rightarrow> []
                            | Target t \<Rightarrow> [SetValue t (spec_clamp01 (snd e))]
                            | Inherited p \<Rightarrow> [SetValueInherited p (spec_clamp01 (snd e))])"
    by (rule ext) (simp add: clampedCalls_def)
  have trace: "fst (applyBlendShapes vrm shapes) =
     (if expressionManager vrm = None then []
      else concat (map (\<lambda>e. case mapToVRMBlendShape (fst e) of
                              Null \<Rightarrow> []
                            | Target t \<Rightarrow> [SetValue t (spec_clamp01 (snd e))]
                            | Inherited p \<Rightarrow> [SetValueInherited p (spec_clamp01 (snd e))]) shapes))"
    by (simp only: applyBlendShapes_trace ew)
  have range: "0 \<le> w \<and> w \<le> 1"
    if "SetValue t w \<in> set (fst (applyBlendShapes vrm shapes))" for t w
  proof -
    from that have "\<exists>e \<in> set shapes. SetValue t w \<in> set (clampedCalls e)"
      by (auto simp: applyBlendShapes_trace split: if_splits)
    then obtain e where "SetValue t w \<in> set (clampedCalls e)" by blast
    then have "w = spec_clamp01 (snd e)"
      by (auto simp: clampedCalls_def split: lookup.splits)
    then show ?thesis using spec_clamp01_range [of "snd e"] by simp
  qed
  have range': "0 \<le> w \<and> w \<le> 1"
    if "SetValueInherited p w \<in> set (fst (applyBlendShapes vrm shapes))" for p w
  proof -
    from that have "\<exists>e \<in> set shapes. SetValueInherited p w \<in> set (clampedCalls e)"
      by (auto simp: applyBlendShapes_trace split: if_splits)
    then obtain e where "SetValueInherited p w \<in> set (clampedCalls e)" by blast
    then have "w = spec_clamp01 (snd e)"
      by (auto simp: clampedCalls_def split: lookup.splits)
    then show ?thesis using spec_clamp01_range [of "snd e"] by simp
  qed
  have high: "fst (applyBlendShapes vrm [(''mouthOpen'', 1.5)]) = [SetValue ''aa'' 1.0]"
    and low: "fst (applyBlendShapes vrm [(''mouthOpen'', - 0.2)]) = [SetValue ''aa'' 0.0]"
    if "expressionManager vrm \<noteq> None"
    using that
    by (simp_all add: applyBlendShapes_trace clampedCalls_def mouthOpen_mapped spec_clamp01_def)
  from trace range range' high low show ?thesis by blast
qed

lemma exampleRig_manager: "expressionManager exampleRig \<noteq> None"
  by (simp add: exampleRig_def)

theorem applyBlendShapes_clamps_witness:
  "expressionManager exampleRig \<noteq> None
   \<and> fst (applyBlendShapes exampleRig [(''mouthOpen'', 1.5)]) = [SetValue ''aa'' 1]
   \<and> fst (applyBlendShapes exampleRig [(''mouthOpen'', - 0.2)]) = [SetValue ''aa'' 0]
   \<and> SetValue ''aa'' 1 \<in> set (fst (applyBlendShapes exampleRig [(''mouthOpen'', 1.5)]))
   \<and> (\<exists>em. expressionManager (snd (applyBlendShapes exampleRig [(''mouthOpen'', 1.5)])) = Some em
           \<and> weights em ''aa'' = Some 1)"
proof -
  note t = applyBlendShapes_clamps [of exampleRig "[(''mouthOpen'', 1.5)]"]
  from t exampleRig_manager
  have "fst (applyBlendShapes exampleRig [(''mouthOpen'', 1.5)]) = [SetValue ''aa'' 1.0]
      \<and> fst (applyBlendShapes exampleRig [(''mouthOpen'', - 0.2)]) = [SetValue ''aa'' 0.0]"
    by blast
  then have a: "fst (applyBlendShapes exampleRig [(''mouthOpen'', 1.5)]) = [SetValue ''aa'' 1]"
    and b: "fst (applyBlendShapes exampleRig [(''mouthOpen'', - 0.2)]) = [SetValue ''aa'' 0]"
    by simp_all
  from a have c: "SetValue ''aa'' 1 \<in> set (fst (applyBlendShapes exampleRig [(''mouthOpen'', 1.5)]))"
    by simp
  have d: "\<exists>em. expressionManager (snd (applyBlendShapes exampleRig [(''mouthOpen'', 1.5)])) = Some em
           \<and> weights em ''aa'' = Some 1"
    by (simp add: applyBlendShapes_def applyEntry_def exampleRig_def mouthOpen_mapped setValue_def)
  from exampleRig_manager a b c d show ?thesis by blast
qed

lemma outside_table:
  assumes "name \<notin> set (map fst mapping)"
  shows "mapToVRMBlendShape name =
           (if name \<in> set objectPrototypeNames then Inherited name else Null)"
proof -
  from assms have "map_of mapping name = None" by (simp add: map_of_eq_None_iff)
  then show ?thesis by (simp add: mapToVRMBlendShape_def)
qed

lemma applyEntry_no_target:
  assumes "mapToVRMBlendShape name = Null \<or> mapToVRMBlendShape name = Inherited name"
  shows "snd (applyEntry (name, v) acc) = snd acc"
  using assms
  by (cases acc) (auto simp: applyEntry_def setValueNonString_def split: option.splits)

lemma forEachEntry_append:
  "forEachEntry (xs @ ys) acc = forEachEntry ys (forEachEntry xs acc)"
  by (induction xs arbitrary: acc) simp_all

lemma applyEntry_rig_only: "snd (applyEntry e (fx, vrm)) = snd (applyEntry e (fx', vrm))"
  by (cases e) (simp add: applyEntry_def split: option.splits lookup.splits)

lemma forEachEntry_rig_only:
  "snd acc = snd acc' \<Longrightarrow> snd (forEachEntry es acc) = snd (forEachEntry es acc')"
proof (induction es arbitrary: acc acc')
  case Nil
  then show ?case by simp
next
  case (Cons e es)
  from Cons.prems have "snd (applyEntry e acc) = snd (applyEntry e acc')"
    using applyEntry_rig_only [of e "fst acc" "snd acc" "fst acc'"]
    by (cases acc; cases acc') simp
  then have "snd (forEachEntry es (applyEntry e acc)) = snd (forEachEntry es (applyEntry e acc'))"
    by (rule Cons.IH)
  then show ?case by simp
qed

lemma forEachEntry_skip_rig:
  assumes "mapToVRMBlendShape name = Null \<or> mapToVRMBlendShape name = Inherited name"
  shows "snd (forEachEntry (before @ (name, v) # after) acc) =
         snd (forEachEntry (before @ after) acc)"
proof -
  have "snd (applyEntry (name, v) (forEachEntry before acc)) = snd (forEachEntry before acc)"
    using assms by (rule applyEntry_no_target)
  then have "snd (forEachEntry after (applyEntry (name, v) (forEachEntry before acc))) =
             snd (forEachEntry after (forEachEntry before acc))"
    by (rule forEachEntry_rig_only)
  then show ?thesis
    by (simp add: forEachEntry_append)
qed

lemma fooBar_outside: "''fooBar'' \<notin> set (map fst mapping) \<and> ''fooBar'' \<notin> set objectPrototypeNames"
  by (simp add: mapping_def objectPrototypeNames_def)

text \<open>
  Claim C7. An entry whose name is not in the channel mapping never changes the rig and
  never fails: the rig after a sample with the entry is the rig after the sample without it,
  and the entry alone leaves the rig as it was. For a name that \<^verbatim>\<open>Object.prototype\<close> does not
  provide either, such as \<open>fooBar\<close>, no call is made at all; for one it provides, the lookup
  is truthy and one \<^verbatim>\<open>setValue\<close> call is made, with a value that names no channel. A write to
  a channel the rig does not have leaves the rig as it was, whether \<^verbatim>\<open>setValue\<close> ignores the
  name or throws; so does a sample applied to a rig without expression manager, and a head
  rotation applied to a rig without humanoid or without head bone.
\<close>

theorem unmapped_names_are_dropped:
  "(name \<notin> set (map fst mapping) \<longrightarrow>
       snd (applyBlendShapes vrm (before @ (name, v) # after)) = snd (applyBlendShapes vrm (before @ after))
     \<and> fst (applyBlendShapes vrm (before @ (name, v) # after)) =
         fst (applyBlendShapes vrm before) @ fst (applyBlendShapes vrm [(name, v)])
         @ fst (applyBlendShapes vrm after)
     \<and> snd (applyBlendShapes vrm [(name, v)]) = vrm
     \<and> (\<forall>t w. SetValue t w \<notin> set (fst (applyBlendShapes vrm [(name, v)])))
     \<and> (name \<notin> set objectPrototypeNames \<longrightarrow> applyBlendShapes vrm [(name, v)] = ([], vrm))
     \<and> (name \<in> set objectPrototypeNames \<and> expressionManager vrm \<noteq> None \<longrightarrow>
          applyBlendShapes vrm [(name, v)] = ([SetValueInherited name (max 0 (min 1 v))], vrm)))
   \<and> ''fooBar'' \<notin> set (map fst mapping)
   \<and> applyBlendShapes vrm [(''fooBar'', 0.9)] = ([], vrm)
   \<and> (expressionManager vrm = Some em \<and> mapToVRMBlendShape name = Target target
        \<and> target \<notin> dom (weights em) \<longrightarrow>
          applyBlendShapes vrm [(name, v)] = ([SetValue target (max 0 (min 1 v))], vrm))
   \<and> (expressionManager vrm = None \<longrightarrow> applyBlendShapes vrm shapes = ([], vrm))
   \<and> (humanoid vrm = None \<longrightarrow> applyHeadRotation vrm rot = ([], vrm))
   \<and> (humanoid vrm = Some h \<and> head h = None \<longrightarrow> applyHeadRotation vrm rot = ([], vrm))"
proof -
  have a: "snd (applyBlendShapes vrm (before @ (name, v) # after)) = snd (applyBlendShapes vrm (before @ after))
     \<and> fst (applyBlendShapes vrm (before @ (name, v) # after)) =
         fst (applyBlendShapes vrm before) @ fst (applyBlendShapes vrm [(name, v)])
         @ fst (applyBlendShapes vrm after)
     \<and> snd (applyBlendShapes vrm [(name, v)]) = vrm
     \<and> (\<forall>t w. SetValue t w \<notin> set (fst (applyBlendShapes vrm [(name, v)])))
     \<and> (name \<notin> set objectPrototypeNames \<longrightarrow> applyBlendShapes vrm [(name, v)] = ([], vrm))
     \<and> (name \<in> set objectPrototypeNames \<and> expressionManager vrm \<noteq> None \<longrightarrow>
          applyBlendShapes vrm [(name, v)] = ([SetValueInherited name (max 0 (min 1 v))], vrm))"
    if out: "name \<notin> set (map fst mapping)" for name v
  proof -
    note lk = outside_table [OF out]
    then have nt: "mapToVRMBlendShape name = Null \<or> mapToVRMBlendShape name = Inherited name"
      by (simp split: if_splits)
    have 1: "snd (applyBlendShapes vrm (before @ (name, v) # after)) =
             snd (applyBlendShapes vrm (before @ after))"
      by (simp add: applyBlendShapes_def forEachEntry_skip_rig [OF nt])
    have 2: "fst (applyBlendShapes vrm (before @ (name, v) # after)) =
         fst (applyBlendShapes vrm before) @ fst (applyBlendShapes vrm [(name, v)])
         @ fst (applyBlendShapes vrm after)"
      by (simp add: applyBlendShapes_trace)
    have 3: "snd (applyBlendShapes vrm [(name, v)]) = vrm"
      using applyEntry_no_target [OF nt, of v "([], vrm)"] by (simp add: applyBlendShapes_def)
    have 4: "\<forall>t w. SetValue t w \<notin> set (fst (applyBlendShapes vrm [(name, v)]))"
      by (simp add: applyBlendShapes_trace clampedCalls_def lk)
    have 5: "applyBlendShapes vrm [(name, v)] = ([], vrm)" if "name \<notin> set objectPrototypeNames"
      using that lk by (simp add: applyBlendShapes_def applyEntry_def)
    have 6: "applyBlendShapes vrm [(name, v)] = ([SetValueInherited name (max 0 (min 1 v))], vrm)"
      if "name \<in> set objectPrototypeNames \<and> expressionManager vrm \<noteq> None"
      using that lk
      by (auto simp: applyBlendShapes_def applyEntry_def setValueNonString_def)
    from 1 2 3 4 5 6 show ?thesis by blast
  qed
  have b: "applyBlendShapes vrm [(''fooBar'', 0.9)] = ([], vrm)"
    using a [of "''fooBar''" "0.9"] fooBar_outside by blast
  have c: "applyBlendShapes vrm [(name, v)] = ([SetValue target (max 0 (min 1 v))], vrm)"
    if "expressionManager vrm = Some em \<and> mapToVRMBlendShape name = Target target
        \<and> target \<notin> dom (weights em)"
    using that by (auto simp: applyBlendShapes_def applyEntry_def setValue_def)
  have d: "applyBlendShapes vrm shapes = ([], vrm)" if "expressionManager vrm = None"
    using that by (simp add: applyBlendShapes_def)
  have e: "applyHeadRotation vrm rot = ([], vrm)" if "humanoid vrm = None"
    using that by (simp add: applyHeadRotation_def)
  have f: "applyHeadRotation vrm rot = ([], vrm)" if "humanoid vrm = Some h \<and> head h = None"
    using that by (simp add: applyHeadRotation_def)
  from a [of name v] fooBar_outside b c d e f show ?thesis by blast
qed

theorem unmapped_names_are_dropped_witness:
  "''fooBar'' \<notin> set (map fst mapping)
   \<and> applyBlendShapes exampleRig [(''fooBar'', 0.9)] = ([], exampleRig)
   \<and> snd (applyBlendShapes exampleRig [(''mouthOpen'', 0.5), (''fooBar'', 0.9)]) =
       snd (applyBlendShapes exampleRig [(''mouthOpen'', 0.5)])
   \<and> ''constructor'' \<notin> set (map fst mapping)
   \<and> ''constructor'' \<in> set objectPrototypeNames
   \<and> applyBlendShapes exampleRig [(''constructor'', 0.9)] =
       ([SetValueInherited ''constructor'' 0.9], exampleRig)
   \<and> snd (applyBlendShapes exampleRig [(''mouthOpen'', 0.5), (''constructor'', 0.9)]) =
       snd (applyBlendShapes exampleRig [(''mouthOpen'', 0.5)])
   \<and> mapToVRMBlendShape ''mouthSmileLeft'' = Target ''joy''
   \<and> ''joy'' \<notin> dom (weights (the (expressionManager exampleRig)))
   \<and> applyBlendShapes exampleRig [(''mouthSmileLeft'', 0.9)] = ([SetValue ''joy'' 0.9], exampleRig)
   \<and> applyHeadRotation (exampleRig\<lparr>humanoid := None\<rparr>) (Vec3 10 0 0) = ([], exampleRig\<lparr>humanoid := None\<rparr>)
   \<and> applyHeadRotation (exampleRig\<lparr>humanoid := Some \<lparr>head = None\<rparr>\<rparr>) (Vec3 10 0 0)
        = ([], exampleRig\<lparr>humanoid := Some \<lparr>head = None\<rparr>\<rparr>)
   \<and> applyBlendShapes (exampleRig\<lparr>expressionManager := None\<rparr>) [(''mouthOpen'', 0.5)]
        = ([], exampleRig\<lparr>expressionManager := None\<rparr>)"
proof -
  let ?em = "the (expressionManager exampleRig)"
  let ?h0 = "\<lparr>head = None\<rparr>"
  have em: "expressionManager exampleRig = Some ?em" by (simp add: exampleRig_def)
  have joy: "mapToVRMBlendShape ''mouthSmileLeft'' = Target ''joy''"
    by (simp add: mapToVRMBlendShape_def mapping_def)
  have nojoy: "''joy'' \<notin> dom (weights ?em)" by (simp add: exampleRig_def)
  have ctor: "''constructor'' \<notin> set (map fst mapping)" "''constructor'' \<in> set objectPrototypeNames"
    by (simp_all add: mapping_def objectPrototypeNames_def)
  note t1 = unmapped_names_are_dropped
    [of "''fooBar''" exampleRig "[(''mouthOpen'', 0.5)]" "0.9" "[]" ?em "''joy''" "[]" "Vec3 10 0 0" ?h0]
  note t2 = unmapped_names_are_dropped
    [of "''mouthSmileLeft''" exampleRig "[]" "0.9" "[]" ?em "''joy''" "[]" "Vec3 10 0 0" ?h0]
  note t3 = unmapped_names_are_dropped
    [of "''fooBar''" "exampleRig\<lparr>humanoid := None\<rparr>" "[]" "0.9" "[]" ?em "''joy''" "[]" "Vec3 10 0 0" ?h0]
  note t4 = unmapped_names_are_dropped
    [of "''fooBar''" "exampleRig\<lparr>humanoid := Some ?h0\<rparr>" "[]" "0.9" "[]" ?em "''joy''" "[]"
        "Vec3 10 0 0" ?h0]
  note t5 = unmapped_names_are_dropped
    [of "''fooBar''" "exampleRig\<lparr>expressionManager := None\<rparr>" "[]" "0.9" "[]" ?em "''joy''"
        "[(''mouthOpen'', 0.5)]" "Vec3 10 0 0" ?h0]
  note t6 = unmapped_names_are_dropped
    [of "''constructor''" exampleRig "[(''mouthOpen'', 0.5)]" "0.9" "[]" ?em "''joy''" "[]"
        "Vec3 10 0 0" ?h0]
  from t1 have f: "''fooBar'' \<notin> set (map fst mapping)" by (elim conjE)
  from t1 have b: "applyBlendShapes exampleRig [(''fooBar'', 0.9)] = ([], exampleRig)" by (elim conjE)
  from t1 f have "snd (applyBlendShapes exampleRig ([(''mouthOpen'', 0.5)] @ (''fooBar'', 0.9) # [])) =
       snd (applyBlendShapes exampleRig ([(''mouthOpen'', 0.5)] @ []))" by (elim conjE) simp
  then have a: "snd (applyBlendShapes exampleRig [(''mouthOpen'', 0.5), (''fooBar'', 0.9)]) =
       snd (applyBlendShapes exampleRig [(''mouthOpen'', 0.5)])" by simp
  from t6 ctor(1)
  have "snd (applyBlendShapes exampleRig ([(''mouthOpen'', 0.5)] @ (''constructor'', 0.9) # [])) =
       snd (applyBlendShapes exampleRig ([(''mouthOpen'', 0.5)] @ []))" by (elim conjE) simp
  then have a': "snd (applyBlendShapes exampleRig [(''mouthOpen'', 0.5), (''constructor'', 0.9)]) =
       snd (applyBlendShapes exampleRig [(''mouthOpen'', 0.5)])" by simp
  from t6 ctor exampleRig_manager
  have "applyBlendShapes exampleRig [(''constructor'', 0.9)] =
       ([SetValueInherited ''constructor'' (max 0 (min 1 0.9))], exampleRig)" by (elim conjE) simp
  then have c0: "applyBlendShapes exampleRig [(''constructor'', 0.9)] =
       ([SetValueInherited ''constructor'' 0.9], exampleRig)" by simp
  from t2 em joy nojoy
  have "applyBlendShapes exampleRig [(''mouthSmileLeft'', 0.9)] =
       ([SetValue ''joy'' (max 0 (min 1 0.9))], exampleRig)" by (elim conjE) simp
  then have c: "applyBlendShapes exampleRig [(''mouthSmileLeft'', 0.9)] = ([SetValue ''joy'' 0.9], exampleRig)"
    by simp
  have h1: "humanoid (exampleRig\<lparr>humanoid := None\<rparr>) = None" by simp
  have h2: "humanoid (exampleRig\<lparr>humanoid := Some ?h0\<rparr>) = Some ?h0 \<and> head ?h0 = None" by simp
  have h3: "expressionManager (exampleRig\<lparr>expressionManager := None\<rparr>) = None" by simp
  from t3 h1 have d: "applyHeadRotation (exampleRig\<lparr>humanoid := None\<rparr>) (Vec3 10 0 0) =
      ([], exampleRig\<lparr>humanoid := None\<rparr>)" by (elim conjE) simp
  from t4 h2 have e: "applyHeadRotation (exampleRig\<lparr>humanoid := Some ?h0\<rparr>) (Vec3 10 0 0)
        = ([], exampleRig\<lparr>humanoid := Some ?h0\<rparr>)" by (elim conjE) simp
  from t5 h3 have g: "applyBlendShapes (exampleRig\<lparr>expressionManager := None\<rparr>) [(''mouthOpen'', 0.5)]
        = ([], exampleRig\<lparr>expressionManager := None\<rparr>)" by (elim conjE) simp
  show ?thesis
    using f b a ctor c0 a' joy nojoy c d e g by (intro conjI)
qed

text \<open>
  The applier functions on a rig that has the channel \<open>aa\<close> and a head bone: once the sample
  \<open>{active, mouthOpen: 0.9, rotation (10, 0, 0)}\<close> is stored, the tick writes \<open>aa = 0.9\<close> and
  the head rotation \<open>(degToRad (10 * 0.5), 0, 0)\<close>, and nothing else.
\<close>

lemma mouthOpen_on_loaded_rig:
  assumes "vrmRef st = Some vrm"
    and "expressionManager vrm = Some em" and "''aa'' \<in> dom (weights em)"
    and "humanoid vrm = Some h" and "head h = Some r0"
  shows "filter isRigWrite
           (fst (animate now1 now2
              (handleFaceTrackingUpdate
                 \<lparr> isActive = True, blendShapes = [(''mouthOpen'', 0.9)],
                   rotation = Vec3 10 0 0, position = Vec3 0 0 0 \<rparr> st))) =
           [SetValue ''aa'' 0.9, HeadRotation (Vec3 (degToRad (10 * 0.5)) 0 0)]"
proof -
  let ?d = "\<lparr> isActive = True, blendShapes = [(''mouthOpen'', 0.9)],
                  rotation = Vec3 10 0 0, position = Vec3 0 0 0 \<rparr>"
  let ?vrm1 = "vrm\<lparr>expressionManager := Some (em\<lparr>weights := (weights em)(''aa'' \<mapsto> 0.9)\<rparr>)\<rparr>"
  have bs: "applyBlendShapes vrm [(''mouthOpen'', 0.9)] = ([SetValue ''aa'' 0.9], ?vrm1)"
    using assms(2,3)
    by (auto simp: applyBlendShapes_def applyEntry_def mouthOpen_mapped setValue_def)
  have hr: "fst (applyHeadRotation ?vrm1 (Vec3 10 0 0)) =
      [HeadRotation (Vec3 (degToRad (10 * 0.5)) 0 0)]"
    using assms(4,5) by (simp add: applyHeadRotation_def Let_def degToRad_def)
  have at: "fst (applyTracking (Some ?d) vrm) =
      [SetValue ''aa'' 0.9, HeadRotation (Vec3 (degToRad (10 * 0.5)) 0 0)]"
    by (simp add: applyTracking_def bs hr split_beta)
  show ?thesis
    using assms(1) by (simp add: animate_rigWrites handleFaceTrackingUpdate_def at)
qed

text \<open>
  Claim C9 at a concrete input. The component as mounted holds no rig. The sample
  \<open>{active, mouthOpen: 0.9, rotation (10, 0, 0), position (0, 0, 0)}\<close> is stored by
  \<^verbatim>\<open>handleFaceTrackingUpdate\<close> and two render ticks follow: neither makes a rig write, so
  neither \<open>aa = 0.9\<close> nor the head rotation is written, and \<^verbatim>\<open>vrmRef\<close> stays empty.
\<close>

theorem mouthOpen_sample_not_written:
  "vrmRef initialCanvas = None
   \<and> currentTrackingData
        (handleFaceTrackingUpdate
           \<lparr> isActive = True, blendShapes = [(''mouthOpen'', 0.9)],
             rotation = Vec3 10 0 0, position = Vec3 0 0 0 \<rparr> initialCanvas) =
       Some \<lparr> isActive = True, blendShapes = [(''mouthOpen'', 0.9)],
              rotation = Vec3 10 0 0, position = Vec3 0 0 0 \<rparr>
   \<and> fst (animate 16 17
        (handleFaceTrackingUpdate
           \<lparr> isActive = True, blendShapes = [(''mouthOpen'', 0.9)],
             rotation = Vec3 10 0 0, position = Vec3 0 0 0 \<rparr> initialCanvas)) =
       [RequestAnimationFrame, StatsBegin, FPSUpdate Infinity, Render, StatsEnd]
   \<and> fst (animate 33 34 (snd (animate 16 17
        (handleFaceTrackingUpdate
           \<lparr> isActive = True, blendShapes = [(''mouthOpen'', 0.9)],
             rotation = Vec3 10 0 0, position = Vec3 0 0 0 \<rparr> initialCanvas)))) =
       [RequestAnimationFrame, StatsBegin, FPSUpdate (Fps 63), Render, StatsEnd]
   \<and> vrmRef (snd (animate 33 34 (snd (animate 16 17
        (handleFaceTrackingUpdate
           \<lparr> isActive = True, blendShapes = [(''mouthOpen'', 0.9)],
             rotation = Vec3 10 0 0, position = Vec3 0 0 0 \<rparr> initialCanvas))))) = None"
proof -
  let ?d = "\<lparr> isActive = True, blendShapes = [(''mouthOpen'', 0.9)],
             rotation = Vec3 10 0 0, position = Vec3 0 0 0 \<rparr>"
  let ?c1 = "\<lparr> autoStart = True, startTime = 16, oldTime = 17, elapsedTime = 1 / 1000,
             running = True \<rparr>"
  have s0: "handleFaceTrackingUpdate ?d initialCanvas = initialCanvas\<lparr>currentTrackingData := Some ?d\<rparr>"
    by (simp add: handleFaceTrackingUpdate_def)
  have t1: "animate 16 17 (initialCanvas\<lparr>currentTrackingData := Some ?d\<rparr>) =
      ([RequestAnimationFrame, StatsBegin, FPSUpdate Infinity, Render, StatsEnd],
       initialCanvas\<lparr>currentTrackingData := Some ?d, clockRef := ?c1\<rparr>)"
    by (simp add: animate_def initialCanvas_def getDelta_def roundedInverse_def Let_def)
  have t2: "animate 33 34 (initialCanvas\<lparr>currentTrackingData := Some ?d, clockRef := ?c1\<rparr>) =
      ([RequestAnimationFrame, StatsBegin, FPSUpdate (Fps 63), Render, StatsEnd],
       initialCanvas\<lparr>currentTrackingData := Some ?d,
         clockRef := \<lparr> autoStart = True, startTime = 16, oldTime = 34, elapsedTime = 18 / 1000,
                       running = True \<rparr>\<rparr>)"
    by (simp add: animate_def initialCanvas_def getDelta_def roundedInverse_def mathRound_def Let_def)
  have v: "vrmRef initialCanvas = None" by (simp add: initialCanvas_def)
  show ?thesis
    unfolding s0 t1 snd_conv fst_conv t2 using v by simp
qed

section \<open>Properties of the tracking producer\<close>

lemma emitted_onResults:
  "d \<in> set (emitted (snd (onResults solve results frameCount))) \<Longrightarrow>
   d = inactiveData \<or> (\<exists>face. d = trackingData face)"
  by (auto simp: onResults_def Let_def split: if_splits option.splits list.splits solved.splits)

text \<open>
  Claim C8. Every sample the tracking callback hands to \<^verbatim>\<open>onUpdate\<close> that is not active
  has no expression weights and zero rotation and position.
\<close>

theorem emitted_sample_invariant:
  "\<forall>d \<in> set (emitted (snd (onResults solve results frameCount))).
      \<not> isActive d \<longrightarrow>
        blendShapes d = [] \<and> rotation d = Vec3 0 0 0 \<and> position d = Vec3 0 0 0"
proof (intro ballI impI)
  fix d assume "d \<in> set (emitted (snd (onResults solve results frameCount)))" and n: "\<not> isActive d"
  then have "d = inactiveData \<or> (\<exists>face. d = trackingData face)" by (auto dest: emitted_onResults)
  with n have "d = inactiveData" by (auto simp: trackingData_def)
  then show "blendShapes d = [] \<and> rotation d = Vec3 0 0 0 \<and> position d = Vec3 0 0 0"
    by (simp add: inactiveData_def)
qed

theorem emitted_sample_invariant_witness:
  "emitted (snd (onResults (\<lambda>l::nat. Throws) (Some [7]) 2)) = [inactiveData]
   \<and> emitted (snd (onResults (\<lambda>l::nat. Throws) None 2)) = [inactiveData]
   \<and> \<not> isActive inactiveData
   \<and> blendShapes inactiveData = [] \<and> rotation inactiveData = Vec3 0 0 0
   \<and> position inactiveData = Vec3 0 0 0"
proof -
  have e: "emitted (snd (onResults (\<lambda>l::nat. Throws) (Some [7]) 2)) = [inactiveData]"
    by (simp add: onResults_def)
  have e2: "emitted (snd (onResults (\<lambda>l::nat. Throws) None 2)) = [inactiveData]"
    by (simp add: onResults_def)
  have n: "\<not> isActive inactiveData" by (simp add: inactiveData_def)
  from e have m: "inactiveData \<in> set (emitted (snd (onResults (\<lambda>l::nat. Throws) (Some [7]) 2)))" by simp
  from emitted_sample_invariant [of "\<lambda>l::nat. Throws" "Some [7]" 2, rule_format, OF m n] e e2 n show ?thesis by blast
qed

text \<open>
  Claim C6. When the solver throws on a frame that passes the decimation, the callback
  catches the error and returns normally: the solver was called once, and the one sample
  handed to \<^verbatim>\<open>onUpdate\<close> is the inactive one, with no weights and zero rotation and position.
  Once the canvas has stored it, a render tick makes no rig write and leaves the rig as it was.
\<close>

theorem solver_error_gives_inactive_sample:
  assumes "solve landmarks = Throws" and "3 dvd Suc frameCount"
  shows "onResults solve (Some (landmarks # others)) frameCount =
           (Suc frameCount,
            Forwarded [FaceSolve landmarks, ConsoleWarn, OnUpdate inactiveData, SetIsTracking False])
       \<and> solverCalls (snd (onResults solve (Some (landmarks # others)) frameCount)) = [landmarks]
       \<and> emitted (snd (onResults solve (Some (landmarks # others)) frameCount)) =
           [\<lparr> isActive = False, blendShapes = [], rotation = Vec3 0 0 0, position = Vec3 0 0 0 \<rparr>]
       \<and> currentTrackingData (handleFaceTrackingUpdate inactiveData st) = Some inactiveData
       \<and> filter isRigWrite (fst (animate now1 now2 (handleFaceTrackingUpdate inactiveData st))) = []
       \<and> vrmRef (snd (animate now1 now2 (handleFaceTrackingUpdate inactiveData st))) = vrmRef st"
proof -
  have r: "onResults solve (Some (landmarks # others)) frameCount =
           (Suc frameCount,
            Forwarded [FaceSolve landmarks, ConsoleWarn, OnUpdate inactiveData, SetIsTracking False])"
    using assms by (simp add: onResults_def Let_def dvd_eq_mod_eq_0)
  have c: "currentTrackingData (handleFaceTrackingUpdate inactiveData st) = Some inactiveData"
    by (simp add: handleFaceTrackingUpdate_def)
  have n: "\<not> isActive inactiveData" by (simp add: inactiveData_def)
  have v: "vrmRef (handleFaceTrackingUpdate inactiveData st) = vrmRef st"
    by (simp add: handleFaceTrackingUpdate_def)
  have w: "filter isRigWrite (fst (animate now1 now2 (handleFaceTrackingUpdate inactiveData st))) = []"
    by (simp add: animate_rigWrites c applyTracking_inactive [OF refl n] split: option.splits)
  have u: "vrmRef (snd (animate now1 now2 (handleFaceTrackingUpdate inactiveData st))) = vrmRef st"
    by (simp add: animate_vrmRef c v applyTracking_inactive [OF refl n] split: option.splits)
  from r c w u show ?thesis by (simp add: inactiveData_def)
qed

theorem solver_error_gives_inactive_sample_witness:
  "(\<lambda>l::nat. Throws) 7 = Throws \<and> 3 dvd Suc 2
   \<and> onResults (\<lambda>l::nat. Throws) (Some [7, 8]) 2 =
       (3, Forwarded [FaceSolve 7, ConsoleWarn, OnUpdate inactiveData, SetIsTracking False])
   \<and> solverCalls (snd (onResults (\<lambda>l::nat. Throws) (Some [7, 8]) 2)) = [7]
   \<and> filter isRigWrite (fst (animate 16 17 (handleFaceTrackingUpdate inactiveData exampleCanvas))) = []
   \<and> vrmRef (snd (animate 16 17 (handleFaceTrackingUpdate inactiveData exampleCanvas))) = Some exampleRig"
proof -
  have a: "(\<lambda>l::nat. Throws) 7 = Throws" by simp
  have b: "3 dvd Suc 2" by simp
  have v: "vrmRef exampleCanvas = Some exampleRig" by (simp add: exampleCanvas_def)
  from solver_error_gives_inactive_sample [of "\<lambda>l::nat. Throws" 7 2 "[8]" exampleCanvas 16 17, OF a b] a b v
  show ?thesis by simp
qed

end
